theory Spec2Isabelle
  imports Main
begin

section \<open>Python values, dictionaries and errors\<close>

text \<open>
  The notebook \<^verbatim>\<open>notebooks/03_evaluation.ipynb\<close> handles dynamically typed values:
  strings, lists and dictionaries with string keys. A dictionary is an association list in
  insertion order; the first binding of a key is the one in force. Characters are the code
  points below 256.
\<close>

datatype pyval =
    PNone
  | PBool bool
  | PInt int
  | PStr string
  | PList "pyval list"
  | PDict "(string \<times> pyval) list"

type_synonym pydict = "(string \<times> pyval) list"

datatype error =
    KeyError string
  | AttributeError string
  | AssertionError
  | InvocationError string

text \<open>\<^verbatim>\<open>d[k]\<close>: the value bound to the key, or \<^verbatim>\<open>KeyError\<close>.\<close>

definition getitem :: "pydict \<Rightarrow> string \<Rightarrow> error + pyval" where
  "getitem d k = (case map_of d k of None \<Rightarrow> Inl (KeyError k) | Some v \<Rightarrow> Inr v)"

text \<open>
  \<^verbatim>\<open>str.lower()\<close> on code points below 256: the letters A to Z and the Latin-1 capitals
  (192 to 222, the multiplication sign 215 apart) move up by 32, every other character stays.
\<close>

definition lower_char :: "char \<Rightarrow> char" where
  "lower_char c =
     (let n = (of_char c :: nat)
      in if (65 \<le> n \<and> n \<le> 90) \<or> (192 \<le> n \<and> n \<le> 222 \<and> n \<noteq> 215)
         then char_of (n + 32) else c)"

definition lower :: "string \<Rightarrow> string" where
  "lower s = map lower_char s"

text \<open>\<^verbatim>\<open>v.lower()\<close> on a value: only a string has the method.\<close>

definition attr_lower :: "pyval \<Rightarrow> error + string" where
  "attr_lower v = (case v of PStr s \<Rightarrow> Inr (lower s) | _ \<Rightarrow> Inl (AttributeError ''lower''))"

section \<open>The agent and the project's helpers\<close>

text \<open>
  The email assistant is imported by the notebook and called as a black box, through its
  full entry point \<^verbatim>\<open>email_assistant.invoke\<close> and through the entry point of one named
  node, \<^verbatim>\<open>email_assistant.nodes[name].invoke\<close>, which answers with a command whose
  \<^verbatim>\<open>update\<close> is a dictionary. Either call may raise.
\<close>

record command =
  update :: pydict

record agent =
  invoke :: "pydict \<Rightarrow> error + pydict"
  nodes :: "(string \<times> (pydict \<Rightarrow> error + command)) list"

text \<open>
  The helpers \<^verbatim>\<open>extract_tool_calls\<close> and \<^verbatim>\<open>format_messages_string\<close> come from
  \<^verbatim>\<open>email_assistant.utils\<close>, and \<^verbatim>\<open>str\<close> is Python's; the notebook only calls them, so they
  are parameters of the model.
\<close>

record helpers =
  py_str :: "pyval \<Rightarrow> string"
  extract_tool_calls :: "pyval \<Rightarrow> string list"
  format_messages_string :: "pyval \<Rightarrow> string"

section \<open>The tool-call test\<close>

text \<open>
  \<^verbatim>\<open>missing_calls = [call for call in expected_calls
                     if call.lower() not in extracted_tool_calls]\<close>
\<close>

definition missing_calls :: "string list \<Rightarrow> string list \<Rightarrow> string list" where
  "missing_calls expected_calls extracted_tool_calls =
     filter (\<lambda>call. lower call \<notin> set extracted_tool_calls) expected_calls"

text \<open>
  The part of \<^verbatim>\<open>test_email_dataset_tool_calls\<close> after the agent has answered: extract the
  tool calls from the transcript, compute the missing ones, log the outputs (the log is the
  state, one dictionary appended per call of \<^verbatim>\<open>t.log_outputs\<close>) and assert that nothing is
  missing.
\<close>

definition check_tool_calls ::
  "helpers \<Rightarrow> pydict list \<Rightarrow> pyval \<Rightarrow> string list \<Rightarrow> (error + unit) \<times> pydict list" where
  "check_tool_calls h log messages expected_calls =
     (let extracted_tool_calls = extract_tool_calls h messages;
          missing = missing_calls expected_calls extracted_tool_calls;
          log' = log @ [[(''missing_calls'', PList (map PStr missing)),
                         (''extracted_tool_calls'', PList (map PStr extracted_tool_calls)),
                         (''response'', PStr (format_messages_string h messages))]]
      in (if length missing = 0 then Inr () else Inl AssertionError, log'))"

text \<open>
  \<^verbatim>\<open>test_email_dataset_tool_calls(email_input, expected_calls)\<close>: run the assistant on the
  email as one user message, then check the transcript \<^verbatim>\<open>result['messages']\<close>.
\<close>

definition test_email_dataset_tool_calls ::
  "helpers \<Rightarrow> agent \<Rightarrow> pydict list \<Rightarrow> pyval \<Rightarrow> string list \<Rightarrow> (error + unit) \<times> pydict list" where
  "test_email_dataset_tool_calls h email_assistant log email_input expected_calls =
     (let messages = PList [PDict [(''role'', PStr ''user''),
                                   (''content'', PStr (py_str h email_input))]]
      in case invoke email_assistant [(''messages'', messages)] of
           Inl e \<Rightarrow> (Inl e, log)
         | Inr result \<Rightarrow>
             (case getitem result ''messages'' of
                Inl e \<Rightarrow> (Inl e, log)
              | Inr transcript \<Rightarrow> check_tool_calls h log transcript expected_calls))"

section \<open>The triage evaluation\<close>

text \<open>
  \<^verbatim>\<open>target_email_assistant(inputs)\<close>: send the email to the node \<^verbatim>\<open>triage_router\<close> alone and
  return a dictionary holding its classification decision.
\<close>

definition target_email_assistant :: "agent \<Rightarrow> pydict \<Rightarrow> error + pydict" where
  "target_email_assistant email_assistant inputs =
     (case map_of (nodes email_assistant) ''triage_router'' of
        None \<Rightarrow> Inl (KeyError ''triage_router'')
      | Some node \<Rightarrow>
          (case getitem inputs ''email_input'' of
             Inl e \<Rightarrow> Inl e
           | Inr email \<Rightarrow>
               (case node [(''email_input'', email)] of
                  Inl e \<Rightarrow> Inl e
                | Inr response \<Rightarrow>
                    (case getitem (update response) ''classification_decision'' of
                       Inl e \<Rightarrow> Inl e
                     | Inr decision \<Rightarrow> Inr [(''classification_decision'', decision)]))))"

text \<open>
  \<^verbatim>\<open>classification_evaluator(outputs, reference_outputs)\<close>: both labels are read and
  lowercased, the agent's first, and compared.
\<close>

definition classification_evaluator :: "pydict \<Rightarrow> pydict \<Rightarrow> error + bool" where
  "classification_evaluator outputs reference_outputs =
     (case getitem outputs ''classification_decision'' of
        Inl e \<Rightarrow> Inl e
      | Inr decision \<Rightarrow>
          (case attr_lower decision of
             Inl e \<Rightarrow> Inl e
           | Inr a \<Rightarrow>
               (case getitem reference_outputs ''classification'' of
                  Inl e \<Rightarrow> Inl e
                | Inr classification \<Rightarrow>
                    (case attr_lower classification of
                       Inl e \<Rightarrow> Inl e
                     | Inr b \<Rightarrow> Inr (a = b)))))"

section \<open>Example data\<close>

text \<open>
  Stand-ins for the black-box parts, used to run the definitions on concrete inputs: a
  transcript that is the list of the names of the tools called, an assistant that answers
  with a given transcript, and an assistant whose triage node answers with a given label.
\<close>

fun names_of :: "pyval \<Rightarrow> string list" where
  "names_of (PList vs) = [s. PStr s \<leftarrow> vs]"
| "names_of _ = []"

definition example_helpers :: helpers where
  "example_helpers =
     \<lparr>py_str = (\<lambda>_. ''email''), extract_tool_calls = names_of,
      format_messages_string = (\<lambda>_. ''transcript'')\<rparr>"

definition scripted_agent :: "string list \<Rightarrow> agent" where
  "scripted_agent names =
     \<lparr>invoke = (\<lambda>_. Inr [(''messages'', PList (map PStr names))]), nodes = []\<rparr>"

definition triage_agent :: "string \<Rightarrow> agent" where
  "triage_agent label =
     \<lparr>invoke = (\<lambda>_. Inl (InvocationError ''full run'')),
      nodes = [(''triage_router'',
                \<lambda>_. Inr \<lparr>update = [(''classification_decision'', PStr label)]\<rparr>)]\<rparr>"

definition example_email :: pyval where
  "example_email =
     PDict [(''author'', PStr ''Alice Smith <alice.smith@company.com>''),
            (''to'', PStr ''Lance Martin <lance@company.com>''),
            (''subject'', PStr ''Quick question about API documentation'')]"

section \<open>Auxiliary facts\<close>

text \<open>Lowercasing of the names and labels that occur in the examples.\<close>

lemma lower_write_email: "lower ''write_email'' = ''write_email''" by code_simp
lemma lower_done: "lower ''done'' = ''done''" by code_simp
lemma lower_Write_Email: "lower ''Write_Email'' = ''write_email''" by code_simp
lemma lower_Done: "lower ''Done'' = ''done''" by code_simp

lemma lower_Respond: "lower ''Respond'' = ''respond''" by code_simp
lemma lower_respond: "lower ''respond'' = ''respond''" by code_simp
lemma lower_notify: "lower ''notify'' = ''notify''" by code_simp
lemma lower_ignore: "lower ''ignore'' = ''ignore''" by code_simp

text \<open>What the check returns and what it logs, and the test once the assistant has answered.\<close>

lemma missing_calls_empty_iff:
  "missing_calls expected_calls extracted = [] \<longleftrightarrow> (\<forall>call \<in> set expected_calls. lower call \<in> set extracted)"
  by (auto simp add: missing_calls_def filter_empty_conv)

lemma check_tool_calls_verdict:
  "fst (check_tool_calls h log transcript expected_calls) =
     (if missing_calls expected_calls (extract_tool_calls h transcript) = [] then Inr () else Inl AssertionError)"
  by (simp add: check_tool_calls_def Let_def)

lemma check_tool_calls_log:
  "snd (check_tool_calls h log transcript expected_calls) =
     log @ [[(''missing_calls'', PList (map PStr (missing_calls expected_calls (extract_tool_calls h transcript)))),
             (''extracted_tool_calls'', PList (map PStr (extract_tool_calls h transcript))),
             (''response'', PStr (format_messages_string h transcript))]]"
  by (simp add: check_tool_calls_def Let_def)

lemma test_after_invoke:
  assumes "invoke email_assistant
             [(''messages'', PList [PDict [(''role'', PStr ''user''),
                                           (''content'', PStr (py_str h email_input))]])] = Inr result"
      and "map_of result ''messages'' = Some transcript"
  shows "test_email_dataset_tool_calls h email_assistant log email_input expected_calls =
           check_tool_calls h log transcript expected_calls"
  using assms by (simp add: test_email_dataset_tool_calls_def getitem_def Let_def)

lemma target_email_assistant_keys:
  "target_email_assistant email_assistant inputs = Inr d \<Longrightarrow> map fst d = [''classification_decision'']"
  by (auto simp add: target_email_assistant_def split: option.splits sum.splits)

section \<open>Tool-call containment\<close>

text \<open>
  Claim C1, as amended. When the assistant answers with a transcript, the tool-call test
  passes if and only if the lowercased form of every reference tool-call name occurs in the
  list of tool calls extracted from the transcript. Any other extraction with the same set
  of names gives the same verdict, so the order of the calls and the number of calls per
  tool are ignored. For the reference
  \<^verbatim>\<open>['write_email', 'done']\<close> every transcript whose extracted calls contain both names
  passes.
\<close>

theorem tool_call_containment:
  assumes "invoke email_assistant
             [(''messages'', PList [PDict [(''role'', PStr ''user''),
                                           (''content'', PStr (py_str h email_input))]])] = Inr result"
      and "map_of result ''messages'' = Some transcript"
  shows "(fst (test_email_dataset_tool_calls h email_assistant log email_input expected_calls) = Inr ()
            \<longleftrightarrow> (\<forall>call \<in> set expected_calls. lower call \<in> set (extract_tool_calls h transcript)))
       \<and> (\<forall>extractor. set (extractor transcript) = set (extract_tool_calls h transcript)
            \<longrightarrow> fst (test_email_dataset_tool_calls (h\<lparr>extract_tool_calls := extractor\<rparr>)
                       email_assistant log email_input expected_calls)
                = fst (test_email_dataset_tool_calls h email_assistant log email_input expected_calls))
       \<and> ({''write_email'', ''done''} \<subseteq> set (extract_tool_calls h transcript)
            \<longrightarrow> fst (test_email_dataset_tool_calls h email_assistant log email_input
                       [''write_email'', ''done'']) = Inr ())"
proof -
  have run: "test_email_dataset_tool_calls h email_assistant log email_input calls =
               check_tool_calls h log transcript calls" for calls
    using assms by (rule test_after_invoke)
  have run': "test_email_dataset_tool_calls (h\<lparr>extract_tool_calls := extractor\<rparr>)
                email_assistant log email_input calls =
              check_tool_calls (h\<lparr>extract_tool_calls := extractor\<rparr>) log transcript calls"
    for extractor calls
    using assms by (intro test_after_invoke) simp_all
  have sets: "fst (check_tool_calls (h\<lparr>extract_tool_calls := extractor\<rparr>) log transcript calls) =
              fst (check_tool_calls h log transcript calls)"
    if "set (extractor transcript) = set (extract_tool_calls h transcript)" for extractor calls
    using that by (simp add: check_tool_calls_verdict missing_calls_empty_iff)
  have general: "fst (check_tool_calls h log transcript calls) = Inr ()
                   \<longleftrightarrow> (\<forall>call \<in> set calls. lower call \<in> set (extract_tool_calls h transcript))" for calls
    by (simp add: check_tool_calls_verdict missing_calls_empty_iff)
  have scenario: "fst (check_tool_calls h log transcript [''write_email'', ''done'']) = Inr ()"
    if "{''write_email'', ''done''} \<subseteq> set (extract_tool_calls h transcript)"
    using that by (simp add: general lower_write_email lower_done)
  show ?thesis
    using general sets scenario by (simp only: run run') blast
qed

text \<open>
  The reference in its stated order against a transcript that calls \<^verbatim>\<open>done\<close> first
  and twice.
\<close>

theorem tool_call_containment_witness:
  "fst (test_email_dataset_tool_calls example_helpers (scripted_agent [''done'', ''write_email'', ''done''])
          [] example_email [''write_email'', ''done'']) = Inr ()"
proof -
  have inv: "invoke (scripted_agent [''done'', ''write_email'', ''done''])
               [(''messages'', PList [PDict [(''role'', PStr ''user''),
                                             (''content'', PStr (py_str example_helpers example_email))]])]
             = Inr [(''messages'', PList (map PStr [''done'', ''write_email'', ''done'']))]"
    by (simp add: scripted_agent_def)
  have msgs: "map_of [(''messages'', PList (map PStr [''done'', ''write_email'', ''done'']))] ''messages''
             = Some (PList [PStr ''done'', PStr ''write_email'', PStr ''done''])"
    by simp
  have ext: "{''write_email'', ''done''}
               \<subseteq> set (extract_tool_calls example_helpers (PList [PStr ''done'', PStr ''write_email'', PStr ''done'']))"
    by (simp add: example_helpers_def)
  show ?thesis
    using tool_call_containment [OF inv msgs, of "[]" "[]"] ext by blast
qed

text \<open>
  Without the lowercasing the statement fails: the reference \<^verbatim>\<open>['Write_Email']\<close> fails
  against extracted calls that contain exactly that name, and passes against extracted calls
  that do not contain it.
\<close>

theorem tool_call_containment_counterexample:
  "fst (test_email_dataset_tool_calls example_helpers (scripted_agent [''Write_Email''])
          [] example_email [''Write_Email'']) = Inl AssertionError
   \<and> set [''Write_Email''] \<subseteq> set (extract_tool_calls example_helpers (PList [PStr ''Write_Email'']))
   \<and> fst (test_email_dataset_tool_calls example_helpers (scripted_agent [''write_email''])
          [] example_email [''Write_Email'']) = Inr ()
   \<and> ''Write_Email'' \<notin> set (extract_tool_calls example_helpers (PList [PStr ''write_email'']))"
  by (simp add: test_email_dataset_tool_calls_def check_tool_calls_def missing_calls_def getitem_def
        scripted_agent_def example_helpers_def lower_Write_Email Let_def)

section \<open>Triage labels\<close>

text \<open>
  Claim C2. When the agent's output and the reference both carry a string label, the
  evaluator returns whether the two labels are equal after lowercasing both.
\<close>

theorem classification_evaluator_exact_match:
  assumes "map_of outputs ''classification_decision'' = Some (PStr a)"
      and "map_of reference_outputs ''classification'' = Some (PStr b)"
  shows "classification_evaluator outputs reference_outputs = Inr (lower a = lower b)"
  using assms by (simp add: classification_evaluator_def getitem_def attr_lower_def)

theorem classification_evaluator_exact_match_witness:
  "classification_evaluator [(''classification_decision'', PStr ''Respond'')]
                            [(''classification'', PStr ''respond'')] = Inr True"
  using classification_evaluator_exact_match
          [of "[(''classification_decision'', PStr ''Respond'')]" "''Respond''"
              "[(''classification'', PStr ''respond'')]" "''respond''"]
  by (simp add: lower_Respond lower_respond)

section \<open>The partial run\<close>

text \<open>
  Claim C6. When the triage node answers the email with a classification decision, the
  target function returns the dictionary holding that decision and nothing else; any
  assistant with the same triage node gives the same result, whatever its other nodes and
  its full entry point do. A decision \<^verbatim>\<open>notify\<close> against the reference \<^verbatim>\<open>ignore\<close> is
  graded false.
\<close>

theorem target_email_assistant_partial_run:
  assumes "map_of (nodes email_assistant) ''triage_router'' = Some node"
      and "map_of inputs ''email_input'' = Some email"
      and "node [(''email_input'', email)] = Inr response"
      and "map_of (update response) ''classification_decision'' = Some decision"
  shows "target_email_assistant email_assistant inputs = Inr [(''classification_decision'', decision)]
       \<and> (\<forall>other. map_of (nodes other) ''triage_router'' = Some node
            \<longrightarrow> target_email_assistant other inputs = target_email_assistant email_assistant inputs)
       \<and> (decision = PStr ''notify''
            \<longrightarrow> classification_evaluator [(''classification_decision'', decision)]
                  [(''classification'', PStr ''ignore'')] = Inr False)"
proof -
  have run: "target_email_assistant a inputs = Inr [(''classification_decision'', decision)]"
    if "map_of (nodes a) ''triage_router'' = Some node" for a
    using that assms(2-4) by (simp add: target_email_assistant_def getitem_def)
  have graded: "classification_evaluator [(''classification_decision'', PStr ''notify'')]
                  [(''classification'', PStr ''ignore'')] = Inr False"
    by (simp add: classification_evaluator_def getitem_def attr_lower_def lower_notify lower_ignore)
  show ?thesis
    using run [OF assms(1)] run graded by simp
qed

theorem target_email_assistant_partial_run_witness:
  "target_email_assistant (triage_agent ''notify'') [(''email_input'', example_email)]
     = Inr [(''classification_decision'', PStr ''notify'')]
   \<and> classification_evaluator [(''classification_decision'', PStr ''notify'')]
        [(''classification'', PStr ''ignore'')] = Inr False"
proof -
  let ?node = "\<lambda>_::pydict. Inr \<lparr>update = [(''classification_decision'', PStr ''notify'')]\<rparr> :: error + command"
  have n: "map_of (nodes (triage_agent ''notify'')) ''triage_router'' = Some ?node"
    by (simp add: triage_agent_def)
  have i: "map_of [(''email_input'', example_email)] ''email_input'' = Some example_email"
    by simp
  have r: "?node [(''email_input'', example_email)]
             = Inr \<lparr>update = [(''classification_decision'', PStr ''notify'')]\<rparr>"
    by simp
  have u: "map_of (update \<lparr>update = [(''classification_decision'', PStr ''notify'')]\<rparr>)
             ''classification_decision'' = Some (PStr ''notify'')"
    by simp
  show ?thesis
    using target_email_assistant_partial_run [OF n i r u] by simp
qed

section \<open>The missing calls are surfaced\<close>

text \<open>
  Claim C8, as amended. When the assistant answers with a transcript, the test logs the
  list of the reference tool calls whose lowercased name is absent from the extracted tool
  calls, together with the extracted calls and the formatted transcript, whether it passes or
  not; it passes exactly when that list is empty, and fails with an assertion error
  otherwise.
\<close>

theorem missing_calls_surfaced:
  assumes "invoke email_assistant
             [(''messages'', PList [PDict [(''role'', PStr ''user''),
                                           (''content'', PStr (py_str h email_input))]])] = Inr result"
      and "map_of result ''messages'' = Some transcript"
  shows "snd (test_email_dataset_tool_calls h email_assistant log email_input expected_calls) =
           log @ [[(''missing_calls'',
                      PList (map PStr (filter (\<lambda>call. lower call \<notin> set (extract_tool_calls h transcript))
                                         expected_calls))),
                   (''extracted_tool_calls'', PList (map PStr (extract_tool_calls h transcript))),
                   (''response'', PStr (format_messages_string h transcript))]]
       \<and> (fst (test_email_dataset_tool_calls h email_assistant log email_input expected_calls) = Inr ()
            \<longleftrightarrow> filter (\<lambda>call. lower call \<notin> set (extract_tool_calls h transcript)) expected_calls = [])
       \<and> (fst (test_email_dataset_tool_calls h email_assistant log email_input expected_calls) \<noteq> Inr ()
            \<longrightarrow> fst (test_email_dataset_tool_calls h email_assistant log email_input expected_calls)
                  = Inl AssertionError)"
proof -
  have run: "test_email_dataset_tool_calls h email_assistant log email_input expected_calls =
               check_tool_calls h log transcript expected_calls"
    using assms by (rule test_after_invoke)
  show ?thesis
    by (simp add: run check_tool_calls_verdict check_tool_calls_log missing_calls_def)
qed

theorem missing_calls_surfaced_witness:
  "test_email_dataset_tool_calls example_helpers (scripted_agent [''write_email''])
          [] example_email [''write_email'', ''done'']
     = (Inl AssertionError,
        [[(''missing_calls'', PList [PStr ''done'']),
          (''extracted_tool_calls'', PList [PStr ''write_email'']),
          (''response'', PStr ''transcript'')]])"
proof -
  have inv: "invoke (scripted_agent [''write_email''])
               [(''messages'', PList [PDict [(''role'', PStr ''user''),
                                             (''content'', PStr (py_str example_helpers example_email))]])]
             = Inr [(''messages'', PList (map PStr [''write_email'']))]"
    by (simp add: scripted_agent_def)
  have msgs: "map_of [(''messages'', PList (map PStr [''write_email'']))] ''messages''
             = Some (PList [PStr ''write_email''])"
    by simp
  have ext: "extract_tool_calls example_helpers (PList [PStr ''write_email'']) = [''write_email'']"
    by (simp add: example_helpers_def)
  have fmt: "format_messages_string example_helpers (PList [PStr ''write_email'']) = ''transcript''"
    by (simp add: example_helpers_def)
  show ?thesis
    using missing_calls_surfaced [OF inv msgs, of "[]" "[''write_email'', ''done'']"]
    by (simp add: ext fmt lower_write_email lower_done prod_eq_iff)
qed

text \<open>
  The logged list is not the list of reference calls absent from the extracted calls as
  they are written: for the reference \<^verbatim>\<open>['Done']\<close> it is empty, and the test passes,
  when only \<^verbatim>\<open>done\<close> was extracted, and it holds \<^verbatim>\<open>Done\<close>, and the test fails, when
  \<^verbatim>\<open>Done\<close> itself was extracted.
\<close>

theorem missing_calls_surfaced_counterexample:
  "test_email_dataset_tool_calls example_helpers (scripted_agent [''done''])
          [] example_email [''Done'']
     = (Inr (),
        [[(''missing_calls'', PList []),
          (''extracted_tool_calls'', PList [PStr ''done'']),
          (''response'', PStr ''transcript'')]])
   \<and> ''Done'' \<notin> set (extract_tool_calls example_helpers (PList [PStr ''done'']))
   \<and> test_email_dataset_tool_calls example_helpers (scripted_agent [''Done''])
          [] example_email [''Done'']
     = (Inl AssertionError,
        [[(''missing_calls'', PList [PStr ''Done'']),
          (''extracted_tool_calls'', PList [PStr ''Done'']),
          (''response'', PStr ''transcript'')]])
   \<and> ''Done'' \<in> set (extract_tool_calls example_helpers (PList [PStr ''Done'']))"
  by (simp add: test_email_dataset_tool_calls_def check_tool_calls_def missing_calls_def getitem_def
        scripted_agent_def example_helpers_def lower_Done Let_def)

section \<open>One-sided lowercasing\<close>



end
